theory Spec2Isabelle
  imports Main
begin

section \<open>Python values\<close>

text \<open>
  The values the bridge handles are the ones Python's \<open>json\<close> module reads and writes:
  \<open>None\<close>, booleans, integers, floats, strings, lists and dictionaries with string
  keys. \<open>PyObject cls r\<close> stands for an object of any other class \<open>cls\<close> (a set, a
  bytes object, ...) whose \<open>repr\<close> is \<open>r\<close>; \<open>json.dumps\<close> has no encoding for it.

  A finite float is named by its \<open>repr\<close> (the shortest decimal text that reads back as
  the same double). A dictionary is an association list in insertion order; lookups
  take the first entry of a key. Characters are code points below 256. The
  interpreter's resource limits (recursion depth, the digit limit of integer to text
  conversion) are outside the model.
\<close>

datatype pyfloat = Finite string | NaN | PosInf | NegInf

datatype pyval =
    PyNone
  | PyBool bool
  | PyInt int
  | PyFloat pyfloat
  | PyStr string
  | PyList "pyval list"
  | PyDict "(string \<times> pyval) list"
  | PyObject string string

type_synonym pydict = "(string \<times> pyval) list"

text \<open>\<open>d.get(key, default)\<close>\<close>

definition dict_get :: "pydict \<Rightarrow> string \<Rightarrow> pyval \<Rightarrow> pyval" where
  "dict_get d k dflt = (case map_of d k of None \<Rightarrow> dflt | Some v \<Rightarrow> v)"

subsection \<open>Text of numbers and characters\<close>

definition bs :: char where
  "bs = CHR 0x5C"

definition dq :: char where
  "dq = CHR 0x22"

definition sq :: char where
  "sq = CHR 0x27"

definition hexdigit :: "nat \<Rightarrow> char" where
  "hexdigit d = ''0123456789abcdef'' ! (d mod 16)"

text \<open>Two lower-case hexadecimal digits of a code point below 256.\<close>

definition hex2 :: "char \<Rightarrow> string" where
  "hex2 c = [hexdigit ((of_char c :: nat) div 16), hexdigit (of_char c :: nat)]"

fun str_nat :: "nat \<Rightarrow> string" where
  "str_nat n =
     (if n < 10 then [''0123456789'' ! n]
      else str_nat (n div 10) @ [''0123456789'' ! (n mod 10)])"

declare str_nat.simps [simp del]

text \<open>\<open>str(n)\<close> and \<open>repr(n)\<close> of an \<open>int\<close>.\<close>

definition str_int :: "int \<Rightarrow> string" where
  "str_int i = (if i < 0 then CHR ''-'' # str_nat (nat (- i)) else str_nat (nat i))"

text \<open>\<open>repr(x)\<close> and \<open>str(x)\<close> of a float.\<close>

fun float_repr :: "pyfloat \<Rightarrow> string" where
  "float_repr (Finite r) = r"
| "float_repr NaN = ''nan''"
| "float_repr PosInf = ''inf''"
| "float_repr NegInf = ''-inf''"

text \<open>\<open>sep.join(parts)\<close>\<close>

fun join :: "string \<Rightarrow> string list \<Rightarrow> string" where
  "join sep [] = []"
| "join sep [p] = p"
| "join sep (p # q # ps) = p @ sep @ join sep (q # ps)"

subsection \<open>\<open>repr\<close> and \<open>str\<close>\<close>

text \<open>
  \<open>repr\<close> of a string: single quotes, unless the text has a single quote and no
  double quote; the quote and the backslash are escaped, tab, newline and carriage
  return are written \<open>\t\<close>, \<open>\n\<close>, \<open>\r\<close>, and every other code point that is not
  printable is written \<open>\xhh\<close>. Below 256 the non-printable code points are those
  under 0x20, 0x7f to 0xa0, and 0xad.
\<close>

definition printable :: "char \<Rightarrow> bool" where
  "printable c =
     (let n = (of_char c :: nat)
      in 32 \<le> n \<and> n < 127 \<or> 161 \<le> n \<and> n \<noteq> 173)"

definition repr_quote :: "string \<Rightarrow> char" where
  "repr_quote s = (if sq \<in> set s \<and> dq \<notin> set s then dq else sq)"

definition repr_char :: "char \<Rightarrow> char \<Rightarrow> string" where
  "repr_char q c =
     (if c = q \<or> c = bs then [bs, c]
      else if c = CHR 0x09 then [bs, CHR ''t'']
      else if c = CHR 0x0A then [bs, CHR ''n'']
      else if c = CHR 0x0D then [bs, CHR ''r'']
      else if printable c then [c]
      else [bs, CHR ''x''] @ hex2 c)"

definition str_repr :: "string \<Rightarrow> string" where
  "str_repr s =
     (let q = repr_quote s in [q] @ concat (map (repr_char q) s) @ [q])"

fun py_repr :: "pyval \<Rightarrow> string"
  and repr_items :: "pyval list \<Rightarrow> string list"
  and repr_entries :: "(string \<times> pyval) list \<Rightarrow> string list"
where
  "py_repr PyNone = ''None''"
| "py_repr (PyBool b) = (if b then ''True'' else ''False'')"
| "py_repr (PyInt i) = str_int i"
| "py_repr (PyFloat x) = float_repr x"
| "py_repr (PyStr s) = str_repr s"
| "py_repr (PyList xs) = ''['' @ join '', '' (repr_items xs) @ '']''"
| "py_repr (PyDict kvs) = ''{'' @ join '', '' (repr_entries kvs) @ ''}''"
| "py_repr (PyObject cls r) = r"
| "repr_items [] = []"
| "repr_items (x # xs) = py_repr x # repr_items xs"
| "repr_entries [] = []"
| "repr_entries ((k, v) # kvs) = (str_repr k @ '': '' @ py_repr v) # repr_entries kvs"

text \<open>\<open>str(v)\<close>, which is also what an f-string writes for \<open>{v}\<close>.\<close>

definition py_str :: "pyval \<Rightarrow> string" where
  "py_str v = (case v of PyStr s \<Rightarrow> s | _ \<Rightarrow> py_repr v)"

text \<open>\<open>s.rstrip("/")\<close>\<close>

definition rstrip_slash :: "string \<Rightarrow> string" where
  "rstrip_slash s = rev (dropWhile (\<lambda>c. c = CHR ''/'') (rev s))"

section \<open>Exceptions\<close>

text \<open>
  An HTTP response as the client reads it: the status, the body text, and what
  \<open>response.json()\<close> gives: the parsed value, or the message of the \<open>ValueError\<close>
  (a \<open>JSONDecodeError\<close> or a \<open>UnicodeDecodeError\<close>) it raises.
\<close>

record response =
  status_code :: int
  resp_text :: string
  json_result :: "string + pyval"

text \<open>
  The exceptions, as far apart as the \<open>except\<close> clauses tell them: \<open>ConnectError\<close>,
  \<open>TimeoutException\<close> (with its subclasses for connect, read, write and pool
  timeouts) and \<open>HTTPStatusError\<close> of httpx, \<open>ValueError\<close> and \<open>TypeError\<close>,
  \<open>OtherException\<close> for every other subclass of \<open>Exception\<close>, and \<open>NonException\<close> for a
  \<open>BaseException\<close> outside \<open>Exception\<close> (\<open>KeyboardInterrupt\<close>, \<open>SystemExit\<close>,
  \<open>asyncio.CancelledError\<close>). The text is \<open>str(e)\<close>; an \<open>HTTPStatusError\<close> carries
  its response, the one thing its handler reads.
\<close>

datatype exn =
    ConnectError string
  | TimeoutException string
  | HTTPStatusError response
  | ValueError string
  | TypeError string
  | OtherException string
  | NonException string

fun is_Exception :: "exn \<Rightarrow> bool" where
  "is_Exception (NonException m) = False"
| "is_Exception e = True"

section \<open>Response formatting\<close>

text \<open>
  \<open>json.dumps(data, indent=2)\<close> with the defaults \<open>ensure_ascii=True\<close>,
  \<open>allow_nan=True\<close>, \<open>sort_keys=False\<close> and no \<open>default\<close> hook: the item separator
  is a comma, the key separator a colon and a space, every nesting level indents by two
  spaces, an empty list or dictionary is written closed on the spot, and a value of a
  class without an encoding raises \<open>TypeError\<close>.
\<close>

definition json_char :: "char \<Rightarrow> string" where
  "json_char c =
     (let n = (of_char c :: nat) in
      if c = dq then [bs, dq]
      else if c = bs then [bs, bs]
      else if c = CHR 0x0A then [bs, CHR ''n'']
      else if c = CHR 0x0D then [bs, CHR ''r'']
      else if c = CHR 0x09 then [bs, CHR ''t'']
      else if c = CHR 0x08 then [bs, CHR ''b'']
      else if c = CHR 0x0C then [bs, CHR ''f'']
      else if n < 32 \<or> 126 < n then [bs, CHR ''u'', CHR ''0'', CHR ''0''] @ hex2 c
      else [c])"

definition json_string :: "string \<Rightarrow> string" where
  "json_string s = [dq] @ concat (map json_char s) @ [dq]"

fun json_float :: "pyfloat \<Rightarrow> string" where
  "json_float (Finite r) = r"
| "json_float NaN = ''NaN''"
| "json_float PosInf = ''Infinity''"
| "json_float NegInf = ''-Infinity''"

text \<open>A line break followed by the indentation of a nesting level.\<close>

definition newline_indent :: "nat \<Rightarrow> string" where
  "newline_indent level = CHR 0x0A # concat (replicate level ''  '')"

fun iterencode :: "nat \<Rightarrow> pyval \<Rightarrow> exn + string"
  and iterencode_list :: "nat \<Rightarrow> pyval list \<Rightarrow> exn + string list"
  and iterencode_dict :: "nat \<Rightarrow> (string \<times> pyval) list \<Rightarrow> exn + string list"
where
  "iterencode level PyNone = Inr ''null''"
| "iterencode level (PyBool b) = Inr (if b then ''true'' else ''false'')"
| "iterencode level (PyInt i) = Inr (str_int i)"
| "iterencode level (PyFloat x) = Inr (json_float x)"
| "iterencode level (PyStr s) = Inr (json_string s)"
| "iterencode level (PyList xs) =
     (if xs = [] then Inr ''[]''
      else case iterencode_list (Suc level) xs of
             Inl e \<Rightarrow> Inl e
           | Inr chunks \<Rightarrow>
               Inr (''['' @ newline_indent (Suc level)
                    @ join ('','' @ newline_indent (Suc level)) chunks
                    @ newline_indent level @ '']''))"
| "iterencode level (PyDict kvs) =
     (if kvs = [] then Inr ''{}''
      else case iterencode_dict (Suc level) kvs of
             Inl e \<Rightarrow> Inl e
           | Inr chunks \<Rightarrow>
               Inr (''{'' @ newline_indent (Suc level)
                    @ join ('','' @ newline_indent (Suc level)) chunks
                    @ newline_indent level @ ''}''))"
| "iterencode level (PyObject cls r) =
     Inl (TypeError (''Object of type '' @ cls @ '' is not JSON serializable''))"
| "iterencode_list level [] = Inr []"
| "iterencode_list level (x # xs) =
     (case iterencode level x of
        Inl e \<Rightarrow> Inl e
      | Inr chunk \<Rightarrow>
          (case iterencode_list level xs of
             Inl e \<Rightarrow> Inl e
           | Inr chunks \<Rightarrow> Inr (chunk # chunks)))"
| "iterencode_dict level [] = Inr []"
| "iterencode_dict level ((k, v) # kvs) =
     (case iterencode level v of
        Inl e \<Rightarrow> Inl e
      | Inr chunk \<Rightarrow>
          (case iterencode_dict level kvs of
             Inl e \<Rightarrow> Inl e
           | Inr chunks \<Rightarrow> Inr ((json_string k @ '': '' @ chunk) # chunks)))"

definition fmt :: "pyval \<Rightarrow> exn + string" where
  "fmt data = iterencode 0 data"


section \<open>HTTP client\<close>

definition GEPHI_API_URL :: string where
  "GEPHI_API_URL = ''http://127.0.0.1:8080''"

definition REQUEST_TIMEOUT :: pyfloat where
  "REQUEST_TIMEOUT = Finite ''60.0''"

record GephiClient =
  base_url :: string
  timeout :: pyfloat

definition GephiClient_init :: "string \<Rightarrow> GephiClient" where
  "GephiClient_init url = \<lparr>base_url = rstrip_slash url, timeout = REQUEST_TIMEOUT\<rparr>"

definition gephi :: GephiClient where
  "gephi = GephiClient_init GEPHI_API_URL"

text \<open>
  One call of \<open>client.request\<close> on a fresh \<open>httpx.AsyncClient(timeout=...)\<close>: the
  arguments it is given, and what comes back, a response or an exception raised
  somewhere in the \<open>async with\<close> block. The network is a function from the number of
  calls made so far and the call to its outcome; the calls made are kept in a log.
\<close>

record http_call =
  call_method :: string
  call_url :: string
  call_params :: "pydict option"
  call_json :: "pydict option"
  call_timeout :: pyfloat

datatype outcome = Raises exn | Responds response

type_synonym network = "nat \<Rightarrow> http_call \<Rightarrow> outcome"

text \<open>\<open>response.raise_for_status()\<close>: any status outside 200 to 299 raises.\<close>

definition raise_for_status :: "response \<Rightarrow> exn + response" where
  "raise_for_status r =
     (if 200 \<le> status_code r \<and> status_code r \<le> 299 then Inr r
      else Inl (HTTPStatusError r))"

definition response_json :: "response \<Rightarrow> exn + pyval" where
  "response_json r =
     (case json_result r of Inl m \<Rightarrow> Inl (ValueError m) | Inr v \<Rightarrow> Inr v)"

text \<open>The dictionary \<open>{"success": False, "error": msg}\<close>.\<close>

definition failure :: "string \<Rightarrow> pyval" where
  "failure msg = PyDict [(''success'', PyBool False), (''error'', PyStr msg)]"

text \<open>The body of the \<open>try\<close> block, given what the call did.\<close>

definition try_block :: "outcome \<Rightarrow> exn + pyval" where
  "try_block out =
     (case out of
        Raises e \<Rightarrow> Inl e
      | Responds r \<Rightarrow>
          (case raise_for_status r of
             Inl e \<Rightarrow> Inl e
           | Inr r' \<Rightarrow> response_json r'))"

text \<open>
  The \<open>except\<close> clauses, in the order of the source. The last one, \<open>except Exception\<close>,
  takes every remaining subclass of \<open>Exception\<close>; what is left propagates.
\<close>

fun except_clauses :: "GephiClient \<Rightarrow> exn \<Rightarrow> exn + pyval" where
  "except_clauses self (ConnectError m) =
     Inr (failure (''Cannot connect to Gephi at '' @ base_url self
            @ ''. Ensure Gephi is running with the MCP plugin installed.''))"
| "except_clauses self (TimeoutException m) =
     Inr (failure ''Request timed out. The operation may still be running in Gephi.'')"
| "except_clauses self (HTTPStatusError r) =
     (case response_json r of
        Inr v \<Rightarrow> Inr v
      | Inl e \<Rightarrow>
          if is_Exception e
          then Inr (failure (''HTTP '' @ str_int (status_code r) @ '': '' @ resp_text r))
          else Inl e)"
| "except_clauses self (ValueError m) = Inr (failure (''Request failed: '' @ m))"
| "except_clauses self (TypeError m) = Inr (failure (''Request failed: '' @ m))"
| "except_clauses self (OtherException m) = Inr (failure (''Request failed: '' @ m))"
| "except_clauses self (NonException m) = Inl (NonException m)"

definition request ::
  "GephiClient \<Rightarrow> network \<Rightarrow> string \<Rightarrow> string \<Rightarrow> pydict option \<Rightarrow> pydict option
     \<Rightarrow> http_call list \<Rightarrow> (exn + pyval) \<times> http_call list"
where
  "request self net method endpoint params json_data calls =
     (let url = base_url self @ endpoint;
          call = \<lparr>call_method = method, call_url = url, call_params = params,
                    call_json = json_data, call_timeout = timeout self\<rparr>
      in (case try_block (net (length calls) call) of
            Inr v \<Rightarrow> Inr v
          | Inl e \<Rightarrow> except_clauses self e,
          calls @ [call]))"

section \<open>MCP tools\<close>

text \<open>
  A tool returns the formatted text, or the exception that leaves it, together with
  the calls made. \<open>fmt_await\<close> is \<open>fmt(await gephi.request(...))\<close>; \<open>or_empty\<close> is
  \<open>params or {}\<close>.
\<close>

type_synonym tool_result = "(exn + string) \<times> http_call list"

type_synonym tool = "pydict \<Rightarrow> network \<Rightarrow> http_call list \<Rightarrow> tool_result"

definition fmt_await :: "(exn + pyval) \<times> http_call list \<Rightarrow> tool_result" where
  "fmt_await res =
     (case fst res of
        Inl e \<Rightarrow> (Inl e, snd res)
      | Inr data \<Rightarrow> (fmt data, snd res))"









definition gephi_switch_workspace :: tool where
  "gephi_switch_workspace params net calls =
     fmt_await (request gephi net ''POST'' ''/workspace/switch'' None (Some params) calls)"

definition gephi_delete_workspace :: tool where
  "gephi_delete_workspace params net calls =
     fmt_await (request gephi net ''DELETE'' ''/workspace/delete''
       (Some [(''index'', PyStr (py_str (dict_get params ''index'' (PyInt 0))))]) None calls)"



definition gephi_remove_node :: tool where
  "gephi_remove_node params net calls =
     (let node_id = dict_get params ''id'' (PyStr '''')
      in fmt_await (request gephi net ''DELETE'' (''/graph/node/'' @ py_str node_id)
           None None calls))"


definition gephi_query_nodes :: tool where
  "gephi_query_nodes params net calls =
     (let query_params = [(''limit'', dict_get params ''limit'' (PyInt 100)),
                          (''offset'', dict_get params ''offset'' (PyInt 0))]
      in fmt_await (request gephi net ''GET'' ''/graph/nodes'' (Some query_params) None calls))"









definition gephi_query_edges :: tool where
  "gephi_query_edges params net calls =
     (let query_params = [(''limit'', dict_get params ''limit'' (PyInt 100)),
                          (''offset'', dict_get params ''offset'' (PyInt 0))]
      in fmt_await (request gephi net ''GET'' ''/graph/edges'' (Some query_params) None calls))"



















































subsection \<open>The registry\<close>






section \<open>Notions used in the statements\<close>

text \<open>The call that \<open>request\<close> hands to the HTTP library.\<close>

definition issued ::
  "GephiClient \<Rightarrow> string \<Rightarrow> string \<Rightarrow> pydict option \<Rightarrow> pydict option \<Rightarrow> http_call" where
  "issued self method endpoint params json_data =
     \<lparr>call_method = method, call_url = base_url self @ endpoint, call_params = params,
      call_json = json_data, call_timeout = timeout self\<rparr>"

text \<open>A network that answers every call in the same way.\<close>

definition always :: "outcome \<Rightarrow> network" where
  "always out = (\<lambda>k call. out)"

text \<open>A result a caller can branch on: a dictionary with \<open>success\<close> false and an \<open>error\<close> text.\<close>

definition is_failure :: "pyval \<Rightarrow> bool" where
  "is_failure v =
     (case v of
        PyDict kvs \<Rightarrow>
          map_of kvs ''success'' = Some (PyBool False)
          \<and> (case map_of kvs ''error'' of Some (PyStr m) \<Rightarrow> True | _ \<Rightarrow> False)
      | _ \<Rightarrow> False)"

text \<open>
  The outcomes of a call that the transport or the decoding can produce: a response, or
  an exception of class \<open>Exception\<close>.
\<close>

definition caught :: "outcome \<Rightarrow> bool" where
  "caught out = (case out of Raises e \<Rightarrow> is_Exception e | Responds r \<Rightarrow> True)"

text \<open>The body of the response of an outcome, when there is a response and it parses.\<close>

definition parsed_body :: "outcome \<Rightarrow> pyval option" where
  "parsed_body out =
     (case out of
        Responds r \<Rightarrow> (case json_result r of Inr v \<Rightarrow> Some v | Inl m \<Rightarrow> None)
      | Raises (HTTPStatusError r) \<Rightarrow> (case json_result r of Inr v \<Rightarrow> Some v | Inl m \<Rightarrow> None)
      | Raises e \<Rightarrow> None)"

text \<open>Sample responses of the controlled application and of a proxy in front of it.\<close>

definition node_not_found :: response where
  "node_not_found =
     \<lparr>status_code = 404,
      resp_text = [CHR ''{'', dq] @ ''success'' @ [dq] @ '': false, '' @ [dq] @ ''error'' @ [dq]
                  @ '': '' @ [dq] @ ''node not found'' @ [dq, CHR ''}''],
      json_result = Inr (PyDict [(''success'', PyBool False), (''error'', PyStr ''node not found'')])\<rparr>"

definition no_such_route :: response where
  "no_such_route =
     \<lparr>status_code = 404,
      resp_text = [CHR ''{'', dq] @ ''message'' @ [dq] @ '': '' @ [dq] @ ''no such route''
                  @ [dq, CHR ''}''],
      json_result = Inr (PyDict [(''message'', PyStr ''no such route'')])\<rparr>"

definition bad_gateway :: response where
  "bad_gateway =
     \<lparr>status_code = 502, resp_text = ''Bad Gateway'',
      json_result = Inl ''Expecting value: line 1 column 1 (char 0)''\<rparr>"


definition node_count :: response where
  "node_count =
     \<lparr>status_code = 200,
      resp_text = [CHR ''{'', dq] @ ''success'' @ [dq] @ '': true, '' @ [dq] @ ''nodeCount'' @ [dq]
                  @ '': 5}'',
      json_result = Inr (PyDict [(''success'', PyBool True), (''nodeCount'', PyInt 5)])\<rparr>"

text \<open>The index a call carries, in its query parameters or else in its JSON body.\<close>

definition sent_index :: "http_call \<Rightarrow> pyval option" where
  "sent_index call =
     (case call_params call of
        Some query \<Rightarrow> map_of query ''index''
      | None \<Rightarrow> (case call_json call of Some body \<Rightarrow> map_of body ''index'' | None \<Rightarrow> None))"




section \<open>The transport client\<close>

lemma request_unfold:
  "request self net verb endpoint params json_data calls =
     (case try_block (net (length calls) (issued self verb endpoint params json_data)) of
        Inr v \<Rightarrow> Inr v
      | Inl e \<Rightarrow> except_clauses self e,
      calls @ [issued self verb endpoint params json_data])"
  by (simp add: request_def issued_def Let_def)

lemma is_failure_failure: "is_failure (failure msg)"
  by (simp add: is_failure_def failure_def)

lemma base_url_gephi: "base_url gephi = ''http://127.0.0.1:8080''"
  by (simp add: gephi_def GephiClient_init_def GEPHI_API_URL_def rstrip_slash_def)

lemma timeout_gephi: "timeout gephi = REQUEST_TIMEOUT"
  by (simp add: gephi_def GephiClient_init_def)



text \<open>
  C1, as the code has it. Whatever the method, path, query parameters and body: when
  the call ends in a response or in an exception of class \<open>Exception\<close>, \<open>request\<close>
  raises nothing and returns a value, after exactly one call. Where the outcome has a
  response whose body parses, the value is that body as it is, whatever its shape and
  whatever the status; in every other case it is a dictionary with \<open>success\<close> false and
  an \<open>error\<close> text.
\<close>

theorem request_returns:
  assumes "caught (net (length calls) (issued self verb endpoint params json_data))"
  shows "\<exists>v. request self net verb endpoint params json_data calls
              = (Inr v, calls @ [issued self verb endpoint params json_data])
            \<and> (case parsed_body (net (length calls) (issued self verb endpoint params json_data)) of
                 Some body \<Rightarrow> v = body
               | None \<Rightarrow> is_failure v)"
proof (cases "net (length calls) (issued self verb endpoint params json_data)")
  case (Raises e)
  with assms have "is_Exception e"
    by (simp add: caught_def)
  with Raises show ?thesis
    by (cases e)
       (auto simp: request_unfold try_block_def response_json_def parsed_body_def
          is_failure_failure split: sum.splits)
next
  case (Responds r)
  then show ?thesis
    by (auto simp: request_unfold try_block_def raise_for_status_def response_json_def
          parsed_body_def is_failure_failure split: sum.splits)
qed

theorem request_returns_witness:
  "caught (always (Responds bad_gateway) (length ([]::http_call list))
      (issued gephi ''GET'' ''/health'' None None))
   \<and> (\<exists>v. request gephi (always (Responds bad_gateway)) ''GET'' ''/health'' None None []
              = (Inr v, [] @ [issued gephi ''GET'' ''/health'' None None])
            \<and> (case parsed_body (always (Responds bad_gateway) (length ([]::http_call list))
                       (issued gephi ''GET'' ''/health'' None None)) of
                 Some body \<Rightarrow> v = body
               | None \<Rightarrow> is_failure v))"
proof -
  have h: "caught (always (Responds bad_gateway) (length ([]::http_call list))
             (issued gephi ''GET'' ''/health'' None None))"
    by (simp add: caught_def always_def)
  from h show ?thesis
    using request_returns [where net = "always (Responds bad_gateway)" and calls = "[]"
      and self = gephi and verb = "''GET''" and endpoint = "''/health''"
      and params = None and json_data = None, OF h]
    by (rule conjI)
qed

text \<open>
  C1 as stated fails: a response with status 404 whose body is JSON of another shape
  comes back as it is, with no \<open>success\<close> flag to branch on.
\<close>

theorem request_failure_shape_counterexample:
  "\<not> (200 \<le> status_code no_such_route \<and> status_code no_such_route \<le> 299)
   \<and> fst (request gephi (always (Responds no_such_route)) ''DELETE'' ''/graph/node/n1''
            None None [])
       = Inr (PyDict [(''message'', PyStr ''no such route'')])
   \<and> \<not> is_failure (PyDict [(''message'', PyStr ''no such route'')])"
  by (simp add: request_unfold always_def try_block_def raise_for_status_def response_json_def
        is_failure_def no_such_route_def)










section \<open>The tools\<close>

lemma snd_fmt_await: "snd (fmt_await res) = snd res"
  by (simp add: fmt_await_def split: sum.splits)

lemma issued_gephi:
  "issued gephi verb endpoint params json_data =
     \<lparr>call_method = verb, call_url = ''http://127.0.0.1:8080'' @ endpoint,
      call_params = params, call_json = json_data, call_timeout = REQUEST_TIMEOUT\<rparr>"
  by (simp add: issued_def base_url_gephi timeout_gephi)

lemma calls_of_tool:
  "snd (fmt_await (request gephi net verb endpoint params json_data calls)) =
     calls @ [\<lparr>call_method = verb, call_url = ''http://127.0.0.1:8080'' @ endpoint,
               call_params = params, call_json = json_data, call_timeout = REQUEST_TIMEOUT\<rparr>]"
  by (simp add: snd_fmt_await request_unfold issued_gephi)

text \<open>
  C6. The node query and the edge query make one GET call whose query parameters are
  \<open>limit\<close> and \<open>offset\<close>, in this order: the caller's value where the key is present,
  100 and 0 where it is absent.
\<close>

theorem query_pagination_defaults:
  "snd (gephi_query_nodes params net calls) =
     calls @ [\<lparr>call_method = ''GET'', call_url = ''http://127.0.0.1:8080/graph/nodes'',
               call_params = Some [(''limit'', case map_of params ''limit'' of
                                                 None \<Rightarrow> PyInt 100 | Some v \<Rightarrow> v),
                                   (''offset'', case map_of params ''offset'' of
                                                  None \<Rightarrow> PyInt 0 | Some v \<Rightarrow> v)],
               call_json = None, call_timeout = REQUEST_TIMEOUT\<rparr>]
   \<and> snd (gephi_query_edges params net calls) =
     calls @ [\<lparr>call_method = ''GET'', call_url = ''http://127.0.0.1:8080/graph/edges'',
               call_params = Some [(''limit'', case map_of params ''limit'' of
                                                 None \<Rightarrow> PyInt 100 | Some v \<Rightarrow> v),
                                   (''offset'', case map_of params ''offset'' of
                                                  None \<Rightarrow> PyInt 0 | Some v \<Rightarrow> v)],
               call_json = None, call_timeout = REQUEST_TIMEOUT\<rparr>]"
  by (simp add: gephi_query_nodes_def gephi_query_edges_def calls_of_tool dict_get_def Let_def)

theorem query_pagination_defaults_witness:
  "map call_params (snd (gephi_query_nodes [] (always (Responds node_count)) []))
     = [Some [(''limit'', PyInt 100), (''offset'', PyInt 0)]]
   \<and> map call_params (snd (gephi_query_edges [] (always (Responds node_count)) []))
     = [Some [(''limit'', PyInt 100), (''offset'', PyInt 0)]]
   \<and> map call_params
        (snd (gephi_query_nodes [(''offset'', PyInt 40), (''limit'', PyInt 20)]
               (always (Responds node_count)) []))
     = [Some [(''limit'', PyInt 20), (''offset'', PyInt 40)]]
   \<and> map call_params
        (snd (gephi_query_edges [(''limit'', PyInt 7)] (always (Responds node_count)) []))
     = [Some [(''limit'', PyInt 7), (''offset'', PyInt 0)]]"
  using
    query_pagination_defaults [of "[]" "always (Responds node_count)" "[]"]
    query_pagination_defaults [of "[(''offset'', PyInt 40), (''limit'', PyInt 20)]"
      "always (Responds node_count)" "[]"]
    query_pagination_defaults [of "[(''limit'', PyInt 7)]" "always (Responds node_count)" "[]"]
  by simp

text \<open>
  C7, as the code has it. Deleting a workspace without an index makes one DELETE call
  with the query parameter \<open>index\<close> set to the text \<open>0\<close>. Switching the workspace makes
  one POST call whose JSON body is the caller's parameter object as it is, so an index
  the caller leaves out is not in the call.
\<close>

theorem workspace_index:
  "(map_of params ''index'' = None \<longrightarrow>
      snd (gephi_delete_workspace params net calls) =
        calls @ [\<lparr>call_method = ''DELETE'',
                  call_url = ''http://127.0.0.1:8080/workspace/delete'',
                  call_params = Some [(''index'', PyStr ''0'')],
                  call_json = None, call_timeout = REQUEST_TIMEOUT\<rparr>])
   \<and> snd (gephi_switch_workspace params net calls) =
        calls @ [\<lparr>call_method = ''POST'',
                  call_url = ''http://127.0.0.1:8080/workspace/switch'',
                  call_params = None,
                  call_json = Some params, call_timeout = REQUEST_TIMEOUT\<rparr>]"
  by (simp add: gephi_delete_workspace_def gephi_switch_workspace_def calls_of_tool
        dict_get_def py_str_def str_int_def str_nat.simps)

theorem workspace_index_witness:
  "map_of ([(''name'', PyStr ''w'')] :: pydict) ''index'' = None
   \<and> map call_params
        (snd (gephi_delete_workspace [(''name'', PyStr ''w'')] (always (Responds node_count)) []))
       = [Some [(''index'', PyStr ''0'')]]
   \<and> map call_json
        (snd (gephi_switch_workspace [(''name'', PyStr ''w'')] (always (Responds node_count)) []))
       = [Some [(''name'', PyStr ''w'')]]"
  using workspace_index [of "[(''name'', PyStr ''w'')]" "always (Responds node_count)" "[]"]
  by simp

text \<open>
  C7 as stated fails for the switch: without an index the call has no index at all,
  neither in the query parameters nor in the body.
\<close>

theorem switch_workspace_index_counterexample:
  "map sent_index (snd (gephi_switch_workspace [] (always (Responds node_count)) [])) = [None]
   \<and> map sent_index (snd (gephi_delete_workspace [] (always (Responds node_count)) []))
       = [Some (PyStr ''0'')]"
  by (simp add: gephi_delete_workspace_def gephi_switch_workspace_def calls_of_tool
        dict_get_def py_str_def str_int_def str_nat.simps sent_index_def)

text \<open>
  C10. Removing a node with a parameter object that has no \<open>id\<close> is the DELETE request
  to the path \<open>/graph/node/\<close>: one call is made, with nothing checked before it, and the
  text returned is the formatted outcome of that call.
\<close>

theorem remove_node_without_id:
  assumes "map_of params ''id'' = None"
  shows "gephi_remove_node params net calls =
           fmt_await (request gephi net ''DELETE'' ''/graph/node/'' None None calls)
         \<and> snd (gephi_remove_node params net calls) =
             calls @ [\<lparr>call_method = ''DELETE'',
                       call_url = ''http://127.0.0.1:8080/graph/node/'',
                       call_params = None, call_json = None,
                       call_timeout = REQUEST_TIMEOUT\<rparr>]"
  using assms
  by (simp add: gephi_remove_node_def calls_of_tool dict_get_def py_str_def Let_def)

theorem remove_node_without_id_witness:
  "map_of ([] :: pydict) ''id'' = None
   \<and> snd (gephi_remove_node [] (always (Responds node_not_found)) []) =
       [\<lparr>call_method = ''DELETE'', call_url = ''http://127.0.0.1:8080/graph/node/'',
         call_params = None, call_json = None, call_timeout = REQUEST_TIMEOUT\<rparr>]"
  using remove_node_without_id [of "[]" "always (Responds node_not_found)" "[]"]
  by (simp add: calls_of_tool)

section \<open>The result formatter\<close>








section \<open>The catalog\<close>











end
